theory Spec2Isabelle
  imports Main
begin

section \<open>Python values, types and errors\<close>

text \<open>
  The cache is dynamically typed: keys, user values and raw stored values are all Python
  objects. A \<open>str\<close> is represented by its UTF-8 octets, so that \<open>s.encode("utf-8")\<close>
  and \<open>str(b, encoding="utf-8")\<close> only change the constructor.
\<close>

datatype pyobj =
    PNone
  | PInt int
  | PStr string
  | PBytes string
  | PList "pyobj list"

text \<open>Python truthiness, as used by \<open>if not val\<close>.\<close>

fun truthy :: "pyobj \<Rightarrow> bool" where
  "truthy PNone = False"
| "truthy (PInt i) = (i \<noteq> 0)"
| "truthy (PStr s) = (s \<noteq> [])"
| "truthy (PBytes b) = (b \<noteq> [])"
| "truthy (PList xs) = (xs \<noteq> [])"

text \<open>The types used as declared key and value types; \<open>PyAny\<close> is \<open>typing.Any\<close>.\<close>

datatype py_type = PyInt | PyStr | PyBytes | PyUint64 | PyAny

text \<open>
  Exceptions. The two \<open>ValueError\<close>s raised by \<open>BlobCache.__enter__\<close> are kept apart
  by the name the specification gives them.
\<close>

datatype error =
    IncompatibleCodecs
  | IncompatibleKeyType
  | TypeError
  | KeyError
  | AttributeError
  | ZeroDivisionError
  | NotImplementedError
  | InternalInvariant
  | CodecError
  | BackendError

definition bindE :: "error + 'a \<Rightarrow> ('a \<Rightarrow> error + 'b) \<Rightarrow> error + 'b" where
  "bindE m f = (case m of Inl e \<Rightarrow> Inl e | Inr x \<Rightarrow> f x)"

section \<open>Collaborators: transformer stack and compressors\<close>

text \<open>
  \<open>transformerz.core.TransformerStack\<close>: \<open>tprocess\<close> is \<open>process\<close> (bytes to value),
  \<open>tunprocess\<close> is \<open>unprocess\<close> (value to bytes), \<open>tid\<close> is the tuple of codec ids.
\<close>

record transformer_stack =
  tid :: "string list"
  tprocess :: "pyobj \<Rightarrow> error + pyobj"
  tunprocess :: "pyobj \<Rightarrow> error + pyobj"

text \<open>A compressor instance: \<open>cprocess\<close> decompresses, \<open>cunprocess\<close> compresses.\<close>

record compressor =
  cprocess :: "pyobj \<Rightarrow> error + pyobj"
  cunprocess :: "pyobj \<Rightarrow> error + pyobj"
  supportsDicts :: bool

text \<open>A compressor factory, called with the keyword arguments (the dictionary or nothing).\<close>

record compressor_factory =
  fid :: string
  build :: "pyobj option \<Rightarrow> compressor"

section \<open>Storage: tables as rows in insertion order\<close>

type_synonym rows = "(pyobj \<times> pyobj) list"

fun lookup :: "('k \<times> 'v) list \<Rightarrow> 'k \<Rightarrow> 'v option" where
  "lookup [] k = None"
| "lookup ((k', v) # xs) k = (if k' = k then Some v else lookup xs k)"

fun remove :: "('k \<times> 'v) list \<Rightarrow> 'k \<Rightarrow> ('k \<times> 'v) list" where
  "remove [] k = []"
| "remove ((k', v) # xs) k = (if k' = k then remove xs k else (k', v) # remove xs k)"

text \<open>Replace the value under a key in place, or append a new row.\<close>

fun upsert :: "('k \<times> 'v) list \<Rightarrow> 'k \<Rightarrow> 'v \<Rightarrow> ('k \<times> 'v) list" where
  "upsert [] k v = [(k, v)]"
| "upsert ((k', v') # xs) k v = (if k' = k then (k, v) # xs else (k', v') # upsert xs k v)"


text \<open>\<open>REPLACE\<close> of one row: the row with the key is deleted, the new row inserted.\<close>

definition replace_row :: "rows \<Rightarrow> pyobj \<Rightarrow> pyobj \<Rightarrow> rows" where
  "replace_row xs k v = remove xs k @ [(k, v)]"

text \<open>The value under a key, \<open>None\<close> when there is no such row.\<close>

definition row_value :: "rows \<Rightarrow> pyobj \<Rightarrow> pyobj" where
  "row_value xs k = (case lookup xs k of None \<Rightarrow> PNone | Some v \<Rightarrow> v)"

text \<open>
  Apply a function to the values of the rows, in order, until it raises: the rows so far
  rewritten, and the exception if there was one.
\<close>

fun rewrite_values :: "(pyobj \<Rightarrow> error + pyobj) \<Rightarrow> rows \<Rightarrow> rows \<times> error option" where
  "rewrite_values fn [] = ([], None)"
| "rewrite_values fn ((k, v) # xs) =
     (case fn v of
        Inl e \<Rightarrow> ((k, v) # xs, Some e)
      | Inr v' \<Rightarrow> (case rewrite_values fn xs of (ys, r) \<Rightarrow> ((k, v') # ys, r)))"

section \<open>The SQLite backend (storageBackends/sqlite.py)\<close>

definition sqliteTypeToPythonType :: "(string \<times> py_type) list" where
  "sqliteTypeToPythonType = [(''INTEGER'', PyInt), (''TEXT'', PyStr), (''BLOB'', PyBytes)]"

definition genPythonTypeToSQLiteType :: "(string \<times> py_type) list \<Rightarrow> (py_type \<times> string) list" where
  "genPythonTypeToSQLiteType m = foldl (\<lambda>res (k, v). upsert res v k) [] m"

definition pythonTypeToSQLiteType :: "(py_type \<times> string) list" where
  "pythonTypeToSQLiteType = genPythonTypeToSQLiteType sqliteTypeToPythonType"

text \<open>
  A table is its declared columns (name and declared type, as \<open>PRAGMA table_info\<close>
  reports them) and its rows. A database is its tables by name.
\<close>

record sql_table =
  columns :: "(string \<times> string) list"
  trows :: rows

type_synonym sql_db = "(string \<times> sql_table) list"

text \<open>
  \<open>s_db\<close> is \<open>self.db\<close>: the content the open connection sees, uncommitted changes
  included. \<open>s_file\<close> is the committed content of the database the connection belongs to,
  which is what another connection sees. \<open>s_commits\<close> counts the calls of \<open>commit\<close>.
\<close>

record sqlite_backend =
  s_path :: "string option"
  s_db :: "sql_db option"
  s_file :: sql_db
  s_functions :: "string list"
  s_commits :: nat

definition with_db :: "sqlite_backend \<Rightarrow> (sql_db \<Rightarrow> error + 'a) \<Rightarrow> error + 'a" where
  "with_db s f = (case s_db s of None \<Rightarrow> Inl AttributeError | Some d \<Rightarrow> f d)"

definition with_table :: "sqlite_backend \<Rightarrow> string \<Rightarrow> (sql_db \<Rightarrow> sql_table \<Rightarrow> error + 'a) \<Rightarrow> error + 'a" where
  "with_table s name f =
     with_db s (\<lambda>d. case lookup d name of None \<Rightarrow> Inl BackendError | Some t \<Rightarrow> f d t)"

definition sq_exists :: "sqlite_backend \<Rightarrow> string \<Rightarrow> error + bool" where
  "sq_exists s name = with_db s (\<lambda>d. Inr (lookup d name \<noteq> None))"

text \<open>\<open>Table.create\<close>: both columns take their type from \<open>keyType\<close>, as the source does.\<close>

definition sq_create :: "sqlite_backend \<Rightarrow> string \<Rightarrow> py_type \<Rightarrow> py_type \<Rightarrow> error + sqlite_backend" where
  "sq_create s name keyType valueType =
     with_db s (\<lambda>d.
       case lookup pythonTypeToSQLiteType keyType of
         None \<Rightarrow> Inl KeyError
       | Some kt \<Rightarrow>
          (case lookup pythonTypeToSQLiteType keyType of
             None \<Rightarrow> Inl KeyError
           | Some vt \<Rightarrow>
              (if lookup d name \<noteq> None then Inl BackendError
               else Inr (s\<lparr>s_db := Some (d @ [(name,
                      \<lparr>columns = [(''key'', kt), (''val'', vt)], trows = []\<rparr>)])\<rparr>))))"

definition sq_len :: "sqlite_backend \<Rightarrow> string \<Rightarrow> error + nat" where
  "sq_len s name = with_table s name (\<lambda>d t. Inr (length (trows t)))"

definition sq_keys :: "sqlite_backend \<Rightarrow> string \<Rightarrow> error + pyobj list" where
  "sq_keys s name = with_table s name (\<lambda>d t. Inr (map fst (trows t)))"

definition sq_values :: "sqlite_backend \<Rightarrow> string \<Rightarrow> error + pyobj list" where
  "sq_values s name = with_table s name (\<lambda>d t. Inr (map snd (trows t)))"

definition sq_items :: "sqlite_backend \<Rightarrow> string \<Rightarrow> error + rows" where
  "sq_items s name = with_table s name (\<lambda>d t. Inr (trows t))"

definition sq_getitem :: "sqlite_backend \<Rightarrow> string \<Rightarrow> pyobj \<Rightarrow> error + pyobj" where
  "sq_getitem s name key = with_table s name (\<lambda>d t. Inr (row_value (trows t) key))"

definition sq_setitem :: "sqlite_backend \<Rightarrow> string \<Rightarrow> pyobj \<Rightarrow> pyobj \<Rightarrow> error + sqlite_backend" where
  "sq_setitem s name key val =
     with_table s name (\<lambda>d t.
       Inr (s\<lparr>s_db := Some (upsert d name (t\<lparr>trows := replace_row (trows t) key val\<rparr>))\<rparr>))"

definition sq_delitem :: "sqlite_backend \<Rightarrow> string \<Rightarrow> pyobj \<Rightarrow> error + sqlite_backend" where
  "sq_delitem s name key =
     with_table s name (\<lambda>d t.
       Inr (s\<lparr>s_db := Some (upsert d name (t\<lparr>trows := remove (trows t) key\<rparr>))\<rparr>))"

definition sq_commit :: "sqlite_backend \<Rightarrow> error + sqlite_backend" where
  "sq_commit s = with_db s (\<lambda>d. Inr (s\<lparr>s_file := d, s_commits := Suc (s_commits s)\<rparr>))"

definition sq_drop :: "sqlite_backend \<Rightarrow> string \<Rightarrow> error + sqlite_backend" where
  "sq_drop s name =
     with_table s name (\<lambda>d t. sq_commit (s\<lparr>s_db := Some (remove d name)\<rparr>))"

text \<open>
  \<open>applyToValues\<close> is one \<open>REPLACE INTO t SELECT key, f(val) FROM t\<close> statement; a
  statement that fails changes nothing.
\<close>

definition sq_applyToValues :: "sqlite_backend \<Rightarrow> string \<Rightarrow> string \<Rightarrow> (pyobj \<Rightarrow> error + pyobj) \<Rightarrow> sqlite_backend \<times> error option" where
  "sq_applyToValues s name funcName fn =
     (case s_db s of
        None \<Rightarrow> (s, Some AttributeError)
      | Some d \<Rightarrow>
         (case lookup d name of
            None \<Rightarrow> (s, Some BackendError)
          | Some t \<Rightarrow>
             (if funcName \<notin> set (s_functions s) then (s, Some BackendError)
              else (case rewrite_values fn (trows t) of
                      (ys, Some e) \<Rightarrow> (s, Some e)
                    | (ys, None) \<Rightarrow> (s\<lparr>s_db := Some (upsert d name (t\<lparr>trows := ys\<rparr>))\<rparr>, None)))))"

definition sq_getKeyType :: "sqlite_backend \<Rightarrow> string \<Rightarrow> error + py_type option" where
  "sq_getKeyType s name =
     with_db s (\<lambda>d.
       case lookup d name of
         None \<Rightarrow> Inr None
       | Some t \<Rightarrow>
          (case lookup (columns t) ''key'' of
             None \<Rightarrow> Inr None
           | Some ty \<Rightarrow>
              (case lookup sqliteTypeToPythonType ty of
                 None \<Rightarrow> Inl KeyError
               | Some p \<Rightarrow> Inr (Some p))))"

definition sq_enter :: "sqlite_backend \<Rightarrow> sqlite_backend" where
  "sq_enter s = (if s_path s \<noteq> None then s\<lparr>s_db := Some (s_file s), s_functions := []\<rparr> else s)"

definition sq_exit :: "sqlite_backend \<Rightarrow> error + sqlite_backend" where
  "sq_exit s =
     (if s_path s \<noteq> None
      then bindE (sq_commit s) (\<lambda>s'. Inr (s'\<lparr>s_db := None\<rparr>))
      else Inr s)"

definition sq_vacuum :: "sqlite_backend \<Rightarrow> error + sqlite_backend" where
  "sq_vacuum s = with_db s (\<lambda>d. Inr s)"

definition sq_optimize :: "sqlite_backend \<Rightarrow> error + sqlite_backend" where
  "sq_optimize s = with_db s (\<lambda>d. Inr s)"

definition sq_createFunction :: "sqlite_backend \<Rightarrow> string \<Rightarrow> error + sqlite_backend" where
  "sq_createFunction s name = with_db s (\<lambda>d. Inr (s\<lparr>s_functions := name # s_functions s\<rparr>))"

definition sq_beginTransaction :: "sqlite_backend \<Rightarrow> error + sqlite_backend" where
  "sq_beginTransaction s = with_db s (\<lambda>d. Inr s)"

section \<open>The memory-mapped backend (storageBackends/lmdb.py)\<close>

text \<open>
  The four key mappers of the module-level table \<open>mappers\<close>. The two library transformers
  are not part of the repository: their ids are taken as \<open>int64\<close> and \<open>utf8\<close>, their
  target types as \<open>int\<close> and \<open>str\<close>.
\<close>

datatype mapper = Int64Transformer | Utf8Transformer | LmdbUint64KeyTransformer | LmdbBytesKeyTransformer

fun mapper_id :: "mapper \<Rightarrow> string" where
  "mapper_id Int64Transformer = ''int64''"
| "mapper_id Utf8Transformer = ''utf8''"
| "mapper_id LmdbUint64KeyTransformer = ''=Q''"
| "mapper_id LmdbBytesKeyTransformer = ''bytes''"

fun tgtType :: "mapper \<Rightarrow> py_type" where
  "tgtType Int64Transformer = PyInt"
| "tgtType Utf8Transformer = PyStr"
| "tgtType LmdbUint64KeyTransformer = PyUint64"
| "tgtType LmdbBytesKeyTransformer = PyBytes"

definition all_mappers :: "mapper list" where
  "all_mappers = [Int64Transformer, Utf8Transformer, LmdbUint64KeyTransformer, LmdbBytesKeyTransformer]"

definition mappers :: "(string \<times> mapper) list" where
  "mappers = foldl (\<lambda>res t. upsert res (mapper_id t) t) [] all_mappers"

definition mappersTypes :: "(py_type \<times> mapper) list" where
  "mappersTypes = foldl (\<lambda>res t. upsert res (tgtType t) t) [] (map snd mappers)"

text \<open>
  \<open>keyMapper.unprocess\<close>: the physical key. The octets of a packed integer are not
  modelled: an integer key in range stays the integer.
\<close>

fun mapper_unprocess :: "mapper \<Rightarrow> pyobj \<Rightarrow> error + pyobj" where
  "mapper_unprocess Utf8Transformer (PStr s) = Inr (PBytes s)"
| "mapper_unprocess Utf8Transformer k = Inl TypeError"
| "mapper_unprocess Int64Transformer (PInt i) =
     (if - (2 ^ 63) \<le> i \<and> i < 2 ^ 63 then Inr (PInt i) else Inl CodecError)"
| "mapper_unprocess Int64Transformer k = Inl TypeError"
| "mapper_unprocess LmdbUint64KeyTransformer k = Inr k"
| "mapper_unprocess LmdbBytesKeyTransformer k = Inr k"

fun mapper_process :: "mapper \<Rightarrow> pyobj \<Rightarrow> error + pyobj" where
  "mapper_process Utf8Transformer (PBytes s) = Inr (PStr s)"
| "mapper_process Utf8Transformer k = Inl TypeError"
| "mapper_process Int64Transformer k = Inr k"
| "mapper_process LmdbUint64KeyTransformer k = Inr k"
| "mapper_process LmdbBytesKeyTransformer k = Inr k"

type_synonym lmdb_env = "(string \<times> rows) list"

text \<open>\<open>SharedWriteTransaction\<close>: \<open>tx\<close> holds the content the open write transaction sees.\<close>

record shared_tx =
  tx :: "lmdb_env option"
  refCount :: int

text \<open>
  \<open>l_open\<close> says whether \<open>self.env\<close> is held; \<open>l_store\<close> is the committed content of the
  environment. \<open>l_keyMappers\<close> is the \<open>keyMapper\<close> of each table object in \<open>self.tables\<close>.
  \<open>l_commits\<close> counts the calls of \<open>commit\<close>.
\<close>

record lmdb_backend =
  l_path :: "string option"
  l_open :: bool
  l_store :: lmdb_env
  currentWriteTx :: "shared_tx option"
  l_functions :: "string list"
  l_keyMappers :: "(string \<times> mapper option) list"
  l_commits :: nat

definition keyTypesDataBaseName :: string where
  "keyTypesDataBaseName = ''keyTypes''"

text \<open>The key mapper of a mapped table; a table object without one fails on use.\<close>

definition keyMapper :: "lmdb_backend \<Rightarrow> string \<Rightarrow> error + mapper" where
  "keyMapper b name =
     (case lookup (l_keyMappers b) name of
        None \<Rightarrow> Inl KeyError
      | Some None \<Rightarrow> Inl AttributeError
      | Some (Some m) \<Rightarrow> Inr m)"

text \<open>\<open>_Table.__getitem__\<close>: a read transaction sees the committed content.\<close>

definition lm_getitem :: "lmdb_backend \<Rightarrow> string \<Rightarrow> pyobj \<Rightarrow> error + pyobj" where
  "lm_getitem b name key =
     bindE (keyMapper b name) (\<lambda>m.
     bindE (mapper_unprocess m key) (\<lambda>keyBin.
       if \<not> l_open b then Inl AttributeError
       else (case lookup (l_store b) name of
               None \<Rightarrow> Inl BackendError
             | Some xs \<Rightarrow> Inr (row_value xs keyBin))))"

text \<open>
  \<open>with self.parent.currentWriteTx as tx: body\<close>. \<open>__enter__\<close> spawns a transaction when
  the count is zero; \<open>__exit__\<close> runs whether or not the body raised, and commits when the
  count is back to zero.
\<close>

definition with_tx :: "lmdb_backend \<Rightarrow> (lmdb_env \<Rightarrow> lmdb_env \<times> error option) \<Rightarrow> lmdb_backend \<times> error option" where
  "with_tx b body =
     (case currentWriteTx b of
        None \<Rightarrow> (b, Some AttributeError)
      | Some w \<Rightarrow>
         (if refCount w = 0
          then (if \<not> l_open b then (b, Some AttributeError)
                else (case body (l_store b) of (e1, r) \<Rightarrow>
                        (b\<lparr>l_store := e1, currentWriteTx := Some (w\<lparr>tx := None\<rparr>)\<rparr>, r)))
          else (case tx w of
                  None \<Rightarrow> (b, Some AttributeError)
                | Some e0 \<Rightarrow>
                   (case body e0 of (e1, r) \<Rightarrow>
                      (b\<lparr>currentWriteTx := Some (w\<lparr>tx := Some e1\<rparr>)\<rparr>, r)))))"

definition tx_replace :: "string \<Rightarrow> pyobj \<Rightarrow> pyobj \<Rightarrow> lmdb_env \<Rightarrow> lmdb_env \<times> error option" where
  "tx_replace name keyBin val e =
     (case lookup e name of
        None \<Rightarrow> (e, Some BackendError)
      | Some xs \<Rightarrow> (upsert e name (upsert xs keyBin val), None))"

definition tx_delete :: "string \<Rightarrow> pyobj \<Rightarrow> lmdb_env \<Rightarrow> lmdb_env \<times> error option" where
  "tx_delete name keyBin e =
     (case lookup e name of
        None \<Rightarrow> (e, Some BackendError)
      | Some xs \<Rightarrow> (upsert e name (remove xs keyBin), None))"

definition lm_setitem :: "lmdb_backend \<Rightarrow> string \<Rightarrow> pyobj \<Rightarrow> pyobj \<Rightarrow> lmdb_backend \<times> error option" where
  "lm_setitem b name key val =
     (case bindE (keyMapper b name) (\<lambda>m. mapper_unprocess m key) of
        Inl e \<Rightarrow> (b, Some e)
      | Inr keyBin \<Rightarrow> with_tx b (tx_replace name keyBin val))"

definition lm_delitem :: "lmdb_backend \<Rightarrow> string \<Rightarrow> pyobj \<Rightarrow> lmdb_backend \<times> error option" where
  "lm_delitem b name key =
     with_tx b (\<lambda>e.
       case bindE (keyMapper b name) (\<lambda>m. mapper_unprocess m key) of
         Inl er \<Rightarrow> (e, Some er)
       | Inr keyBin \<Rightarrow> tx_delete name keyBin e)"

text \<open>Sequencing of steps that return the state they reached and the exception, if any.\<close>

definition andThen :: "'s \<times> error option \<Rightarrow> ('s \<Rightarrow> 's \<times> error option) \<Rightarrow> 's \<times> error option" where
  "andThen r f = (case r of (s, None) \<Rightarrow> f s | (s, Some e) \<Rightarrow> (s, Some e))"

definition attempt :: "'s \<Rightarrow> error + 's \<Rightarrow> 's \<times> error option" where
  "attempt s r = (case r of Inl e \<Rightarrow> (s, Some e) | Inr s' \<Rightarrow> (s', None))"

definition getMapper :: "lmdb_backend \<Rightarrow> string \<Rightarrow> string \<Rightarrow> error + mapper option" where
  "getMapper b name tp =
     bindE (lm_getitem b keyTypesDataBaseName (PStr (tp @ ''-'' @ name))) (\<lambda>keyMapperId.
       case keyMapperId of
         PNone \<Rightarrow> Inr None
       | PBytes i \<Rightarrow> (case lookup mappers i of None \<Rightarrow> Inl KeyError | Some m \<Rightarrow> Inr (Some m))
       | _ \<Rightarrow> Inl KeyError)"

definition setMapper :: "lmdb_backend \<Rightarrow> string \<Rightarrow> string \<Rightarrow> mapper \<Rightarrow> lmdb_backend \<times> error option" where
  "setMapper b name typ m =
     lm_setitem b keyTypesDataBaseName (PStr (typ @ ''-'' @ name)) (PBytes (mapper_id m))"

definition keyMapperMetaKey :: string where
  "keyMapperMetaKey = ''key''"

text \<open>\<open>_open\<close>: \<open>open_db\<close> creates the named database when it is not there.\<close>

definition lm_open :: "lmdb_backend \<Rightarrow> string \<Rightarrow> error + lmdb_backend" where
  "lm_open b name =
     (if \<not> l_open b then Inl AttributeError
      else if lookup (l_store b) name \<noteq> None then Inr b
      else Inr (b\<lparr>l_store := l_store b @ [(name, [])]\<rparr>))"

text \<open>\<open>Table.__init__\<close>, as \<open>Tablez.map\<close> calls it.\<close>

definition lm_map :: "lmdb_backend \<Rightarrow> string \<Rightarrow> lmdb_backend \<times> error option" where
  "lm_map b name =
     (case getMapper b name keyMapperMetaKey of
        Inl e \<Rightarrow> (b, Some e)
      | Inr km \<Rightarrow> attempt b (lm_open (b\<lparr>l_keyMappers := upsert (l_keyMappers b) name km\<rparr>) name))"

definition lm_exists :: "lmdb_backend \<Rightarrow> string \<Rightarrow> error + lmdb_backend \<times> bool" where
  "lm_exists b name =
     bindE (getMapper b name keyMapperMetaKey) (\<lambda>km.
       Inr (b\<lparr>l_keyMappers := upsert (l_keyMappers b) name km\<rparr>, km \<noteq> None))"

definition lm_commit :: "lmdb_backend \<Rightarrow> lmdb_backend" where
  "lm_commit b = b\<lparr>l_commits := Suc (l_commits b)\<rparr>"

definition lm_create :: "lmdb_backend \<Rightarrow> string \<Rightarrow> py_type \<Rightarrow> py_type \<Rightarrow> lmdb_backend \<times> error option" where
  "lm_create b name keyType valueType =
     (case lookup mappersTypes keyType of
        None \<Rightarrow> (b, Some KeyError)
      | Some km \<Rightarrow>
         andThen (setMapper (b\<lparr>l_keyMappers := upsert (l_keyMappers b) name (Some km)\<rparr>) name keyMapperMetaKey km)
           (\<lambda>b1. andThen (attempt b1 (lm_open b1 name)) (\<lambda>b2. (lm_commit b2, None))))"

definition lm_len :: "lmdb_backend \<Rightarrow> string \<Rightarrow> error + nat" where
  "lm_len b name =
     (if \<not> l_open b then Inl AttributeError
      else (case lookup (l_store b) name of None \<Rightarrow> Inl BackendError | Some xs \<Rightarrow> Inr (length xs)))"

fun process_all :: "('a \<Rightarrow> error + 'b) \<Rightarrow> 'a list \<Rightarrow> error + 'b list" where
  "process_all f [] = Inr []"
| "process_all f (x # xs) = bindE (f x) (\<lambda>y. bindE (process_all f xs) (\<lambda>ys. Inr (y # ys)))"

definition lm_items :: "lmdb_backend \<Rightarrow> string \<Rightarrow> error + rows" where
  "lm_items b name =
     (if \<not> l_open b then Inl AttributeError
      else (case lookup (l_store b) name of
              None \<Rightarrow> Inl BackendError
            | Some xs \<Rightarrow>
               process_all (\<lambda>(k, v). bindE (bindE (keyMapper b name) (\<lambda>m. mapper_process m k)) (\<lambda>k'. Inr (k', v))) xs))"

definition lm_keys :: "lmdb_backend \<Rightarrow> string \<Rightarrow> error + pyobj list" where
  "lm_keys b name = bindE (lm_items b name) (\<lambda>xs. Inr (map fst xs))"

definition lm_values :: "lmdb_backend \<Rightarrow> string \<Rightarrow> error + pyobj list" where
  "lm_values b name =
     (if \<not> l_open b then Inl AttributeError
      else (case lookup (l_store b) name of None \<Rightarrow> Inl BackendError | Some xs \<Rightarrow> Inr (map snd xs)))"

text \<open>
  \<open>drop\<close> empties the database and deletes the key \<open>self.name\<close> from the key-types table
  (the records of that table are under \<open>key-\<close> and the name).
\<close>

definition lm_drop :: "lmdb_backend \<Rightarrow> string \<Rightarrow> lmdb_backend \<times> error option" where
  "lm_drop b name =
     with_tx b (\<lambda>e.
       case lookup e name of
         None \<Rightarrow> (e, Some BackendError)
       | Some xs \<Rightarrow>
          (case bindE (keyMapper b keyTypesDataBaseName) (\<lambda>m. mapper_unprocess m (PStr name)) of
             Inl er \<Rightarrow> (upsert e name [], Some er)
           | Inr keyBin \<Rightarrow> tx_delete keyTypesDataBaseName keyBin (upsert e name [])))"

text \<open>
  \<open>applyToValues\<close>: a cursor replaces each value by \<open>fn\<close> of it, one record at a time,
  inside the shared write transaction.
\<close>

definition lm_applyToValues :: "lmdb_backend \<Rightarrow> string \<Rightarrow> string \<Rightarrow> (pyobj \<Rightarrow> error + pyobj) \<Rightarrow> lmdb_backend \<times> error option" where
  "lm_applyToValues b name funcName fn =
     (if funcName \<notin> set (l_functions b) then (b, Some KeyError)
      else with_tx b (\<lambda>e.
             case lookup e name of
               None \<Rightarrow> (e, Some BackendError)
             | Some xs \<Rightarrow> (case rewrite_values fn xs of (ys, r) \<Rightarrow> (upsert e name ys, r))))"

definition lm_getKeyType :: "lmdb_backend \<Rightarrow> string \<Rightarrow> error + py_type option" where
  "lm_getKeyType b name = bindE (keyMapper b name) (\<lambda>m. Inr (Some (tgtType m)))"

definition lm_enter :: "lmdb_backend \<Rightarrow> lmdb_backend \<times> error option" where
  "lm_enter b =
     (let b1 = (if l_path b \<noteq> None then b\<lparr>l_open := True\<rparr> else b);
          b2 = b1\<lparr>l_keyMappers := upsert (l_keyMappers b1) keyTypesDataBaseName (Some Utf8Transformer)\<rparr>
      in andThen (attempt b1 (lm_open b2 keyTypesDataBaseName)) (\<lambda>b3.
           let b4 = b3\<lparr>currentWriteTx := Some \<lparr>tx = None, refCount = 0\<rparr>\<rparr>
           in case lm_exists b4 keyTypesDataBaseName of
                Inl e \<Rightarrow> (b4, Some e)
              | Inr (b5, ex) \<Rightarrow>
                 (if \<not> ex then lm_create b5 keyTypesDataBaseName PyStr PyStr else (b5, None))))"

definition lm_exit :: "lmdb_backend \<Rightarrow> lmdb_backend \<times> error option" where
  "lm_exit b =
     andThen
       (case currentWriteTx b of
          None \<Rightarrow> (b, None)
        | Some w \<Rightarrow>
           (if refCount w - 1 = 0
            then (case tx w of
                    None \<Rightarrow> (b\<lparr>currentWriteTx := Some (w\<lparr>refCount := 0\<rparr>)\<rparr>, Some AttributeError)
                  | Some e \<Rightarrow> (b\<lparr>l_store := e, currentWriteTx := None\<rparr>, None))
            else (b\<lparr>currentWriteTx := None\<rparr>, None)))
       (\<lambda>b1. (b1\<lparr>l_keyMappers := [], l_open := False\<rparr>, None))"

definition lm_createFunction :: "lmdb_backend \<Rightarrow> string \<Rightarrow> lmdb_backend" where
  "lm_createFunction b name = b\<lparr>l_functions := name # l_functions b\<rparr>"

section \<open>The backend interface (storageBackends/__init__.py)\<close>

datatype backend = SQLiteBackend sqlite_backend | LMDBBackend lmdb_backend

definition sq :: "sqlite_backend \<Rightarrow> error + sqlite_backend \<Rightarrow> backend \<times> error option" where
  "sq s r = (case r of Inl e \<Rightarrow> (SQLiteBackend s, Some e) | Inr s' \<Rightarrow> (SQLiteBackend s', None))"

definition lm :: "lmdb_backend \<times> error option \<Rightarrow> backend \<times> error option" where
  "lm r = (case r of (b, e) \<Rightarrow> (LMDBBackend b, e))"

fun b_commit :: "backend \<Rightarrow> backend \<times> error option" where
  "b_commit (SQLiteBackend s) = sq s (sq_commit s)"
| "b_commit (LMDBBackend b) = (LMDBBackend (lm_commit b), None)"

fun b_enter :: "backend \<Rightarrow> backend \<times> error option" where
  "b_enter (SQLiteBackend s) = (SQLiteBackend (sq_enter s), None)"
| "b_enter (LMDBBackend b) = lm (lm_enter b)"

fun b_exit :: "backend \<Rightarrow> backend \<times> error option" where
  "b_exit (SQLiteBackend s) = sq s (sq_exit s)"
| "b_exit (LMDBBackend b) = lm (lm_exit b)"

fun b_map :: "backend \<Rightarrow> string \<Rightarrow> backend \<times> error option" where
  "b_map (SQLiteBackend s) name = (SQLiteBackend s, None)"
| "b_map (LMDBBackend b) name = lm (lm_map b name)"

fun b_exists :: "backend \<Rightarrow> string \<Rightarrow> error + backend \<times> bool" where
  "b_exists (SQLiteBackend s) name = bindE (sq_exists s name) (\<lambda>ex. Inr (SQLiteBackend s, ex))"
| "b_exists (LMDBBackend b) name = bindE (lm_exists b name) (\<lambda>(b', ex). Inr (LMDBBackend b', ex))"

fun b_create :: "backend \<Rightarrow> string \<Rightarrow> py_type \<Rightarrow> py_type \<Rightarrow> backend \<times> error option" where
  "b_create (SQLiteBackend s) name kt vt = sq s (sq_create s name kt vt)"
| "b_create (LMDBBackend b) name kt vt = lm (lm_create b name kt vt)"

fun b_getitem :: "backend \<Rightarrow> string \<Rightarrow> pyobj \<Rightarrow> error + pyobj" where
  "b_getitem (SQLiteBackend s) name key = sq_getitem s name key"
| "b_getitem (LMDBBackend b) name key = lm_getitem b name key"

fun b_setitem :: "backend \<Rightarrow> string \<Rightarrow> pyobj \<Rightarrow> pyobj \<Rightarrow> backend \<times> error option" where
  "b_setitem (SQLiteBackend s) name key val = sq s (sq_setitem s name key val)"
| "b_setitem (LMDBBackend b) name key val = lm (lm_setitem b name key val)"

fun b_delitem :: "backend \<Rightarrow> string \<Rightarrow> pyobj \<Rightarrow> backend \<times> error option" where
  "b_delitem (SQLiteBackend s) name key = sq s (sq_delitem s name key)"
| "b_delitem (LMDBBackend b) name key = lm (lm_delitem b name key)"

fun b_drop :: "backend \<Rightarrow> string \<Rightarrow> backend \<times> error option" where
  "b_drop (SQLiteBackend s) name = sq s (sq_drop s name)"
| "b_drop (LMDBBackend b) name = lm (lm_drop b name)"

fun b_applyToValues :: "backend \<Rightarrow> string \<Rightarrow> string \<Rightarrow> (pyobj \<Rightarrow> error + pyobj) \<Rightarrow> backend \<times> error option" where
  "b_applyToValues (SQLiteBackend s) name f fn =
     (case sq_applyToValues s name f fn of (s', e) \<Rightarrow> (SQLiteBackend s', e))"
| "b_applyToValues (LMDBBackend b) name f fn = lm (lm_applyToValues b name f fn)"

fun b_getKeyType :: "backend \<Rightarrow> string \<Rightarrow> error + py_type option" where
  "b_getKeyType (SQLiteBackend s) name = sq_getKeyType s name"
| "b_getKeyType (LMDBBackend b) name = lm_getKeyType b name"

fun b_len :: "backend \<Rightarrow> string \<Rightarrow> error + nat" where
  "b_len (SQLiteBackend s) name = sq_len s name"
| "b_len (LMDBBackend b) name = lm_len b name"

fun b_keys :: "backend \<Rightarrow> string \<Rightarrow> error + pyobj list" where
  "b_keys (SQLiteBackend s) name = sq_keys s name"
| "b_keys (LMDBBackend b) name = lm_keys b name"

fun b_values :: "backend \<Rightarrow> string \<Rightarrow> error + pyobj list" where
  "b_values (SQLiteBackend s) name = sq_values s name"
| "b_values (LMDBBackend b) name = lm_values b name"

fun b_items :: "backend \<Rightarrow> string \<Rightarrow> error + rows" where
  "b_items (SQLiteBackend s) name = sq_items s name"
| "b_items (LMDBBackend b) name = lm_items b name"

fun b_vacuum :: "backend \<Rightarrow> backend \<times> error option" where
  "b_vacuum (SQLiteBackend s) = sq s (sq_vacuum s)"
| "b_vacuum (LMDBBackend b) = (LMDBBackend b, None)"

fun b_optimize :: "backend \<Rightarrow> backend \<times> error option" where
  "b_optimize (SQLiteBackend s) = sq s (sq_optimize s)"
| "b_optimize (LMDBBackend b) = (LMDBBackend b, None)"

fun b_createFunction :: "backend \<Rightarrow> string \<Rightarrow> backend \<times> error option" where
  "b_createFunction (SQLiteBackend s) name = sq s (sq_createFunction s name)"
| "b_createFunction (LMDBBackend b) name = (LMDBBackend (lm_createFunction b name), None)"

fun b_beginTransaction :: "backend \<Rightarrow> backend \<times> error option" where
  "b_beginTransaction (SQLiteBackend s) = sq s (sq_beginTransaction s)"
| "b_beginTransaction (LMDBBackend b) = (LMDBBackend b, None)"

text \<open>What a cache opened afresh on the same file would find: the committed content.\<close>

fun committed_rows :: "backend \<Rightarrow> string \<Rightarrow> rows option" where
  "committed_rows (SQLiteBackend s) name = map_option trows (lookup (s_file s) name)"
| "committed_rows (LMDBBackend b) name = lookup (l_store b) name"

text \<open>The content the open backend reads.\<close>

fun current_rows :: "backend \<Rightarrow> string \<Rightarrow> rows option" where
  "current_rows (SQLiteBackend s) name =
     (case s_db s of None \<Rightarrow> None | Some d \<Rightarrow> map_option trows (lookup d name))"
| "current_rows (LMDBBackend b) name = (if l_open b then lookup (l_store b) name else None)"

fun commits :: "backend \<Rightarrow> nat" where
  "commits (SQLiteBackend s) = s_commits s"
| "commits (LMDBBackend b) = l_commits b"

section \<open>The cache (Cache/__init__.py)\<close>

text \<open>
  The catalogs of the collaborating libraries: the table of compressor factories by id
  (an entry may be \<open>None\<close>) and the JSON codec used for the \<open>serializers\<close> record.
\<close>

record catalog =
  COMPRESSORS_DICT :: "string \<Rightarrow> compressor_factory option option"
  json_dumps :: "string list \<Rightarrow> string"
  json_loads :: "string \<Rightarrow> pyobj option"

record cache =
  backend :: backend
  compressor :: "compressor option"
  newCompressor :: "compressor option"
  compressorFactory :: "compressor_factory option"
  commitOnNOps :: int
  opsPending :: int
  keyType :: py_type
  transformers :: transformer_stack

definition TABLE_NAME :: string where
  "TABLE_NAME = ''cache''"

definition META_TABLE_NAME :: string where
  "META_TABLE_NAME = ''metadata''"

text \<open>\<open>__init__\<close> with a preconstructed backend as \<open>base\<close>; \<open>trs\<close> is the stack of the class.\<close>

definition cache_init :: "transformer_stack \<Rightarrow> backend \<Rightarrow> compressor_factory option \<Rightarrow> int \<Rightarrow> py_type option \<Rightarrow> cache" where
  "cache_init trs base factory n kt =
     \<lparr>backend = base, compressor = None, newCompressor = None, compressorFactory = factory,
      commitOnNOps = n, opsPending = 0,
      keyType = (case kt of None \<Rightarrow> PyStr | Some t \<Rightarrow> t), transformers = trs\<rparr>"

definition withBackend :: "cache \<Rightarrow> backend \<times> error option \<Rightarrow> cache \<times> error option" where
  "withBackend c r = (case r of (b, e) \<Rightarrow> (c\<lparr>backend := b\<rparr>, e))"

definition willCommit :: "cache \<Rightarrow> error + bool" where
  "willCommit c =
     (if opsPending c = 0 then Inr False
      else if commitOnNOps c = 0 then Inl ZeroDivisionError
      else Inr (opsPending c mod commitOnNOps c = 0))"

definition commit :: "cache \<Rightarrow> cache \<times> error option" where
  "commit c = andThen (withBackend c (b_commit (backend c))) (\<lambda>c1. (c1\<lparr>opsPending := 0\<rparr>, None))"

definition opCommit :: "cache \<Rightarrow> cache \<times> error option" where
  "opCommit c =
     (case willCommit c of
        Inl e \<Rightarrow> (c, Some e)
      | Inr w \<Rightarrow> (if w then commit c else (c\<lparr>opsPending := opsPending c + 1\<rparr>, None)))"

text \<open>The key as the data table has it: through the stack when the key type is \<open>Any\<close>.\<close>

definition storedKey :: "cache \<Rightarrow> pyobj \<Rightarrow> error + pyobj" where
  "storedKey c key = (if keyType c = PyAny then tunprocess (transformers c) key else Inr key)"

definition decompress :: "cache \<Rightarrow> pyobj \<Rightarrow> error + pyobj" where
  "decompress c val = (case compressor c of None \<Rightarrow> Inr val | Some k \<Rightarrow> cprocess k val)"

definition compress :: "cache \<Rightarrow> pyobj \<Rightarrow> error + pyobj" where
  "compress c val = (case compressor c of None \<Rightarrow> Inr val | Some k \<Rightarrow> cunprocess k val)"

definition getitem :: "cache \<Rightarrow> pyobj \<Rightarrow> error + pyobj" where
  "getitem c key =
     bindE (storedKey c key) (\<lambda>k.
     bindE (b_getitem (backend c) TABLE_NAME k) (\<lambda>val.
       if \<not> truthy val then Inr PNone
       else bindE (decompress c val) (tprocess (transformers c))))"

definition contains :: "cache \<Rightarrow> pyobj \<Rightarrow> error + bool" where
  "contains c key = bindE (getitem c key) (\<lambda>v. Inr (v \<noteq> PNone))"

definition delitem :: "cache \<Rightarrow> pyobj \<Rightarrow> cache \<times> error option" where
  "delitem c key =
     (case storedKey c key of
        Inl e \<Rightarrow> (c, Some e)
      | Inr k \<Rightarrow> andThen (withBackend c (b_delitem (backend c) TABLE_NAME k)) opCommit)"

definition setitem :: "cache \<Rightarrow> pyobj \<Rightarrow> pyobj \<Rightarrow> cache \<times> error option" where
  "setitem c key val =
     (if val = PNone then delitem c key
      else (case storedKey c key of
              Inl e \<Rightarrow> (c, Some e)
            | Inr k \<Rightarrow>
               (case bindE (tunprocess (transformers c) val) (compress c) of
                  Inl e \<Rightarrow> (c, Some e)
                | Inr raw \<Rightarrow> andThen (withBackend c (b_setitem (backend c) TABLE_NAME k raw)) opCommit)))"

definition len :: "cache \<Rightarrow> error + nat" where
  "len c = b_len (backend c) TABLE_NAME"

definition keys :: "cache \<Rightarrow> error + pyobj list" where
  "keys c =
     bindE (b_keys (backend c) TABLE_NAME)
       (process_all (\<lambda>k. if keyType c = PyAny then tprocess (transformers c) k else Inr k))"

definition decompressedValuesBytes :: "cache \<Rightarrow> error + pyobj list" where
  "decompressedValuesBytes c = bindE (b_values (backend c) TABLE_NAME) (process_all (decompress c))"

definition cache_values :: "cache \<Rightarrow> error + pyobj list" where
  "cache_values c = bindE (decompressedValuesBytes c) (process_all (tprocess (transformers c)))"

definition items :: "cache \<Rightarrow> error + rows" where
  "items c =
     bindE (b_items (backend c) TABLE_NAME)
       (process_all (\<lambda>(k, v).
          bindE (decompress c v) (\<lambda>v1.
          bindE (if keyType c = PyAny then tprocess (transformers c) k else Inr k) (\<lambda>k1.
          bindE (tprocess (transformers c) v1) (\<lambda>v2. Inr (k1, v2))))))"

definition isInitialized :: "cache \<Rightarrow> error + cache \<times> bool" where
  "isInitialized c =
     bindE (b_exists (backend c) META_TABLE_NAME) (\<lambda>(b, ex). Inr (c\<lparr>backend := b\<rparr>, ex))"

definition getCacheTableKeyType :: "cache \<Rightarrow> error + py_type option" where
  "getCacheTableKeyType c = b_getKeyType (backend c) TABLE_NAME"

definition recreateCompressorWithArgs :: "cache \<Rightarrow> pyobj option \<Rightarrow> cache" where
  "recreateCompressorWithArgs c dictionary =
     (case compressorFactory c of
        None \<Rightarrow> c
      | Some f \<Rightarrow> c\<lparr>compressor := Some (build f dictionary)\<rparr>)"

definition compressionDictionary :: "cache \<Rightarrow> error + pyobj" where
  "compressionDictionary c = b_getitem (backend c) META_TABLE_NAME (PStr ''dict'')"

definition recompressorFunc :: "cache \<Rightarrow> pyobj \<Rightarrow> error + pyobj" where
  "recompressorFunc c v =
     (case newCompressor c of
        None \<Rightarrow> Inl InternalInvariant
      | Some n \<Rightarrow>
         (case compressor c of
            None \<Rightarrow> Inl AttributeError
          | Some k \<Rightarrow> bindE (cprocess k v) (cunprocess n)))"

definition vacuum :: "cache \<Rightarrow> cache \<times> error option" where
  "vacuum c =
     andThen (if opsPending c \<noteq> 0 then commit c else (c, None))
       (\<lambda>c1. withBackend c1 (b_vacuum (backend c1)))"

definition optimize :: "cache \<Rightarrow> cache \<times> error option" where
  "optimize c =
     andThen (if opsPending c \<noteq> 0 then commit c else (c, None))
       (\<lambda>c1. withBackend c1 (b_optimize (backend c1)))"

definition createDataTable :: "cache \<Rightarrow> cache \<times> error option" where
  "createDataTable c =
     (let kt = (if keyType c \<noteq> PyAny then keyType c else PyBytes)
      in andThen (withBackend c (b_create (backend c) TABLE_NAME kt PyBytes)) optimize)"

definition empty :: "cache \<Rightarrow> cache \<times> error option" where
  "empty c =
     andThen (withBackend c (b_drop (backend c) TABLE_NAME))
       (\<lambda>c1. andThen (createDataTable c1) commit)"

definition applyCompressionDictionary :: "cache \<Rightarrow> pyobj \<Rightarrow> cache \<times> error option" where
  "applyCompressionDictionary c newDict =
     (case compressionDictionary c of
        Inl e \<Rightarrow> (c, Some e)
      | Inr d \<Rightarrow>
         (if d = newDict then (c, None)
          else
            andThen (withBackend c (b_beginTransaction (backend c))) (\<lambda>c1.
              case compressorFactory c1 of
                None \<Rightarrow> (c1, Some TypeError)
              | Some f \<Rightarrow>
                 (let c2 = c1\<lparr>newCompressor := Some (build f (Some newDict))\<rparr>
                  in andThen (withBackend c2 (b_applyToValues (backend c2) TABLE_NAME ''recompress'' (recompressorFunc c2))) (\<lambda>c3.
                     let c4 = c3\<lparr>compressor := newCompressor c3, newCompressor := None\<rparr>
                     in andThen (withBackend c4 (b_setitem (backend c4) META_TABLE_NAME (PStr ''dict'') newDict)) (\<lambda>c5.
                          commit (c5\<lparr>compressor := Some (build f (Some newDict))\<rparr>)))))))"

text \<open>
  \<open>optimizeCompression\<close>; \<open>train\<close> stands for \<open>compute_optimal_dict\<close> of the
  compressor at the dictionary size chosen.
\<close>

definition optimizeCompression :: "cache \<Rightarrow> (pyobj list \<Rightarrow> pyobj) \<Rightarrow> cache \<times> error option" where
  "optimizeCompression c train =
     (case compressor c of
        None \<Rightarrow> (c, Some NotImplementedError)
      | Some k \<Rightarrow>
         (if \<not> supportsDicts k then (c, Some NotImplementedError)
          else andThen (commit c) (\<lambda>c1.
                 case decompressedValuesBytes c1 of
                   Inl e \<Rightarrow> (c1, Some e)
                 | Inr vs \<Rightarrow> applyCompressionDictionary c1 (train vs))))"

text \<open>\<open>str(x, encoding="utf-8")\<close>.\<close>

fun str_of_bytes :: "pyobj \<Rightarrow> error + string" where
  "str_of_bytes (PBytes b) = Inr b"
| "str_of_bytes x = Inl TypeError"

text \<open>\<open>tuple(x)\<close> of a decoded JSON value.\<close>

fun tuple :: "pyobj \<Rightarrow> error + pyobj list" where
  "tuple (PList xs) = Inr xs"
| "tuple (PStr s) = Inr (map (\<lambda>ch. PStr [ch]) s)"
| "tuple (PBytes b) = Inr (map (\<lambda>ch. PInt (int (of_char ch))) b)"
| "tuple x = Inl TypeError"

text \<open>The initialization path of \<open>__enter__\<close>: the metadata table does not exist.\<close>

definition initialize :: "catalog \<Rightarrow> cache \<Rightarrow> cache \<times> error option" where
  "initialize cat c =
     andThen (withBackend c (b_create (backend c) META_TABLE_NAME PyStr PyBytes)) (\<lambda>c1.
     andThen (withBackend c1 (b_setitem (backend c1) META_TABLE_NAME (PStr ''compression'')
                (PBytes (case compressorFactory c1 of None \<Rightarrow> ''none'' | Some f \<Rightarrow> fid f)))) (\<lambda>c2.
     andThen (withBackend c2 (b_setitem (backend c2) META_TABLE_NAME (PStr ''serializers'')
                (PBytes (json_dumps cat (tid (transformers c2)))))) (\<lambda>c3.
     andThen (createDataTable c3) (\<lambda>c4.
     andThen (commit c4) (\<lambda>c5. (recreateCompressorWithArgs c5 None, None))))))"

text \<open>The attach path of \<open>__enter__\<close>: the metadata table exists.\<close>

definition attach :: "catalog \<Rightarrow> cache \<Rightarrow> cache \<times> error option" where
  "attach cat c =
     (case bindE (b_getitem (backend c) META_TABLE_NAME (PStr ''compression''))
             (\<lambda>x. case x of PStr i \<Rightarrow> Inr i | _ \<Rightarrow> str_of_bytes x) of
        Inl e \<Rightarrow> (c, Some e)
      | Inr compressionId \<Rightarrow>
         (case bindE (b_getitem (backend c) META_TABLE_NAME (PStr ''serializers'')) (\<lambda>x.
               bindE (str_of_bytes x) (\<lambda>t.
                 case json_loads cat t of None \<Rightarrow> Inl CodecError | Some j \<Rightarrow> tuple j)) of
            Inl e \<Rightarrow> (c, Some e)
          | Inr transformersTemp \<Rightarrow>
             (if transformersTemp \<noteq> map PStr (tid (transformers c)) then (c, Some IncompatibleCodecs)
              else (case getCacheTableKeyType c of
                      Inl e \<Rightarrow> (c, Some e)
                    | Inr kt \<Rightarrow>
                       (if kt \<noteq> Some (keyType c) \<and> \<not> (keyType c = PyAny \<and> kt = Some PyBytes)
                        then (c, Some IncompatibleKeyType)
                        else (case COMPRESSORS_DICT cat compressionId of
                                None \<Rightarrow> (c, Some KeyError)
                              | Some f \<Rightarrow>
                                 (let c1 = c\<lparr>compressorFactory := f\<rparr>
                                  in case b_getitem (backend c1) META_TABLE_NAME (PStr ''dict'') of
                                       Inl e \<Rightarrow> (c1, Some e)
                                     | Inr dic \<Rightarrow>
                                        (if dic \<noteq> PNone then (c1, Some TypeError)
                                         else (recreateCompressorWithArgs c1 None, None)))))))))"

text \<open>The first three statements of \<open>__enter__\<close>: enter the backend and map the two tables.\<close>

definition open_tables :: "cache \<Rightarrow> cache \<times> error option" where
  "open_tables c =
     andThen (withBackend c (b_enter (backend c))) (\<lambda>c1.
     andThen (withBackend c1 (b_map (backend c1) TABLE_NAME)) (\<lambda>c2.
       withBackend c2 (b_map (backend c2) META_TABLE_NAME)))"

definition cache_enter :: "catalog \<Rightarrow> cache \<Rightarrow> cache \<times> error option" where
  "cache_enter cat c =
     andThen (open_tables c) (\<lambda>c3.
       case isInitialized c3 of
         Inl e \<Rightarrow> (c3, Some e)
       | Inr (c4, ex) \<Rightarrow>
          andThen (if \<not> ex then initialize cat c4 else attach cat c4) (\<lambda>c5.
            withBackend c5 (b_createFunction (backend c5) ''recompress'')))"

text \<open>
  The cache as the attach path of \<open>__enter__\<close> finds it: the backend entered, the tables
  mapped, and the metadata table there.
\<close>

definition attach_state :: "cache \<Rightarrow> cache option" where
  "attach_state c =
     (case open_tables c of
        (c3, Some e) \<Rightarrow> None
      | (c3, None) \<Rightarrow>
         (case isInitialized c3 of
            Inl e \<Rightarrow> None
          | Inr (c4, ex) \<Rightarrow> (if ex then Some c4 else None)))"

definition cache_exit :: "cache \<Rightarrow> cache \<times> error option" where
  "cache_exit c = withBackend c (b_exit (backend c))"

fun populate :: "cache \<Rightarrow> rows \<Rightarrow> cache \<times> error option" where
  "populate c [] = (c, None)"
| "populate c ((k, v) # xs) = andThen (setitem c k v) (\<lambda>c1. populate c1 xs)"

text \<open>The operations of an open cache, and a run of them in which the caller goes on after an
  operation that raised.\<close>

datatype op =
    Put pyobj pyobj
  | Delete pyobj
  | Get pyobj
  | Commit
  | Vacuum
  | Optimize
  | Empty
  | Populate rows
  | ApplyCompressionDictionary pyobj
  | OptimizeCompression "pyobj list \<Rightarrow> pyobj"

fun step :: "cache \<Rightarrow> op \<Rightarrow> cache \<times> error option" where
  "step c (Put k v) = setitem c k v"
| "step c (Delete k) = delitem c k"
| "step c (Get k) = (c, case getitem c k of Inl e \<Rightarrow> Some e | Inr v \<Rightarrow> None)"
| "step c Commit = commit c"
| "step c Vacuum = vacuum c"
| "step c Optimize = optimize c"
| "step c Empty = empty c"
| "step c (Populate xs) = populate c xs"
| "step c (ApplyCompressionDictionary d) = applyCompressionDictionary c d"
| "step c (OptimizeCompression train) = optimizeCompression c train"

fun run :: "cache \<Rightarrow> op list \<Rightarrow> cache" where
  "run c [] = c"
| "run c (x # xs) = run (fst (step c x)) xs"

text \<open>The counter of pending operations is within the batch size \<open>n\<close> of the cache.\<close>

definition in_range :: "int \<Rightarrow> cache \<Rightarrow> bool" where
  "in_range n c \<longleftrightarrow> commitOnNOps c = n \<and> 0 \<le> opsPending c \<and> opsPending c \<le> n"






text \<open>
  The data table as an open backend reads it has the rows \<open>xs\<close>; \<open>keeps\<close> says it of the
  memory-mapped backend.
\<close>

definition keeps :: "rows \<Rightarrow> lmdb_backend \<Rightarrow> bool" where
  "keeps xs b \<longleftrightarrow> l_open b \<and> lookup (l_store b) TABLE_NAME = Some xs"

definition holds :: "rows \<Rightarrow> backend \<Rightarrow> bool" where
  "holds xs b \<longleftrightarrow> current_rows b TABLE_NAME = Some xs"

text \<open>A cache of the same class and declared key type as another.\<close>

definition same_class :: "cache \<Rightarrow> cache \<Rightarrow> bool" where
  "same_class c c' \<longleftrightarrow> transformers c' = transformers c \<and> keyType c' = keyType c"

section \<open>Concrete collaborators and stores\<close>

text \<open>\<open>BlobCache.transformers\<close>: the empty stack, which leaves the bytes as they are.\<close>

definition BlobCache_transformers :: transformer_stack where
  "BlobCache_transformers = \<lparr>tid = [], tprocess = Inr, tunprocess = Inr\<rparr>"

text \<open>
  \<open>StringCache.transformers\<close>: the stack of the UTF-8 transformer alone (its id is taken
  as \<open>utf8\<close>).
\<close>

definition StringCache_transformers :: transformer_stack where
  "StringCache_transformers =
     \<lparr>tid = [''utf8''],
      tprocess = (\<lambda>v. case v of PBytes b \<Rightarrow> Inr (PStr b) | _ \<Rightarrow> Inl TypeError),
      tunprocess = (\<lambda>v. case v of PStr t \<Rightarrow> Inr (PBytes t) | _ \<Rightarrow> Inl TypeError)\<rparr>"

text \<open>
  A compressor that frames the bytes: it puts a marker and its dictionary in front, and
  removes them again. What was framed with one dictionary is not read with another.
\<close>

definition frame_compressor :: "pyobj option \<Rightarrow> compressor" where
  "frame_compressor d =
     (let t = CHR ''Z'' # (case d of Some (PBytes x) \<Rightarrow> x | _ \<Rightarrow> [])
      in \<lparr>cprocess = (\<lambda>v. case v of
               PBytes b \<Rightarrow> (if take (length t) b = t then Inr (PBytes (drop (length t) b)) else Inl CodecError)
             | _ \<Rightarrow> Inl TypeError),
           cunprocess = (\<lambda>v. case v of PBytes b \<Rightarrow> Inr (PBytes (t @ b)) | _ \<Rightarrow> Inl TypeError),
           supportsDicts = True\<rparr>)"

definition frame_factory :: compressor_factory where
  "frame_factory = \<lparr>fid = ''frame'', build = frame_compressor\<rparr>"

text \<open>A catalog with the entries \<open>none\<close> and \<open>frame\<close>, and the JSON text of the id
  lists of the two stacks above.\<close>

definition blob_catalog :: catalog where
  \<open>blob_catalog =
     \<lparr>COMPRESSORS_DICT = (\<lambda>i. if i = ''none'' then Some None
                               else if i = ''frame'' then Some (Some frame_factory) else None),
      json_dumps = (\<lambda>ids. if ids = [] then ''[]'' else ''["utf8"]''),
      json_loads = (\<lambda>t. if t = ''[]'' then Some (PList [])
                         else if t = ''["utf8"]'' then Some (PList [PStr ''utf8'']) else None)\<rparr>\<close>

text \<open>A connection to a new in-memory database, as \<open>sqlite3.connect(":memory:")\<close> gives.\<close>

definition memory_db :: sqlite_backend where
  "memory_db = \<lparr>s_path = None, s_db = Some [], s_file = [], s_functions = [], s_commits = 0\<rparr>"



text \<open>
  The backend that a \<open>StringCache\<close> with keys of type \<open>int\<close> leaves behind on a new
  in-memory database, after one put and the exit.
\<close>

definition string_cache_int_keys :: backend where
  "string_cache_int_keys =
     (let c = fst (cache_enter blob_catalog
                    (cache_init StringCache_transformers (SQLiteBackend memory_db) None 1 (Some PyInt)))
      in backend (fst (cache_exit (fst (setitem c (PInt 1) (PStr ''hello''))))))"

text \<open>A \<open>BlobCache\<close> on a new in-memory database after the put of the empty bytes.\<close>

definition cache_with_empty_value :: cache where
  "cache_with_empty_value =
     fst (setitem (fst (cache_enter blob_catalog
                         (cache_init BlobCache_transformers (SQLiteBackend memory_db) None 1 None)))
            (PStr ''a'') (PBytes []))"

section \<open>Basic facts\<close>

lemma bindE_Inl [simp]: "bindE (Inl e) f = Inl e"
  by (simp add: bindE_def)

lemma bindE_Inr [simp]: "bindE (Inr x) f = f x"
  by (simp add: bindE_def)

lemma lookup_upsert_same [simp]: "lookup (upsert xs k v) k = Some v"
  by (induction xs) auto

lemma lookup_upsert_other [simp]: "k' \<noteq> k \<Longrightarrow> lookup (upsert xs k v) k' = lookup xs k'"
  by (induction xs) auto

lemma lookup_remove_same [simp]: "lookup (remove xs k) k = None"
  by (induction xs) auto

lemma lookup_remove_other [simp]: "k' \<noteq> k \<Longrightarrow> lookup (remove xs k) k' = lookup xs k'"
  by (induction xs) auto

lemma andThen_simps [simp]:
  "andThen (s, None) f = f s" "andThen (s, Some e) f = (s, Some e)"
  by (simp_all add: andThen_def)

lemma withBackend_fields [simp]:
  "transformers (fst (withBackend c r)) = transformers c"
  "keyType (fst (withBackend c r)) = keyType c"
  "commitOnNOps (fst (withBackend c r)) = commitOnNOps c"
  "opsPending (fst (withBackend c r)) = opsPending c"
  "compressor (fst (withBackend c r)) = compressor c"
  by (simp_all add: withBackend_def split: prod.splits)

lemma open_tables_fields:
  "transformers (fst (open_tables c)) = transformers c \<and> keyType (fst (open_tables c)) = keyType c"
  unfolding open_tables_def
  by (auto simp: andThen_def withBackend_def split: prod.splits option.splits)

lemma attach_state_fields:
  assumes "attach_state c = Some c4"
  shows "transformers c4 = transformers c" "keyType c4 = keyType c"
  using assms open_tables_fields [of c]
  by (auto simp: attach_state_def isInitialized_def bindE_def split: prod.splits option.splits sum.splits if_splits)

lemma cache_enter_attach:
  assumes "attach_state c = Some c4"
  shows "cache_enter cat c = andThen (attach cat c4) (\<lambda>c5. withBackend c5 (b_createFunction (backend c5) ''recompress''))"
  using assms
  by (auto simp: attach_state_def cache_enter_def split: prod.splits option.splits sum.splits if_splits)






section \<open>Column types of the SQLite tables\<close>

text \<open>
  C6. Creating a table in the SQLite backend types the columns from the declared types through
  the map int to INTEGER, str to TEXT, bytes to BLOB; the data table of the initialization
  path has its \<open>val\<close> column typed BLOB. The code takes the type of the \<open>val\<close> column from
  the key type: the data table created for the key type \<open>str\<close> and the value type
  \<open>bytes\<close> has both columns typed TEXT.
\<close>

theorem create_types_val_column_from_key_type:
  "sq_create memory_db TABLE_NAME PyStr PyBytes =
     Inr (memory_db\<lparr>s_db := Some [(TABLE_NAME,
            \<lparr>columns = [(''key'', ''TEXT''), (''val'', ''TEXT'')], trows = []\<rparr>)]\<rparr>)"
  by code_simp

section \<open>Commit accounting\<close>

text \<open>
  C2. With \<open>commitOnNOps = N\<close> every mutating operation increments the counter of pending
  operations, and exactly when the counter reaches \<open>N\<close> a commit is issued and the counter
  reset. In the code the test comes before the increment: with \<open>N = 1\<close> the first put on
  a cache just opened leaves the counter at 1, issues no commit, and the row is not in the
  committed content.
\<close>

theorem first_put_reaches_N_without_commit:
  "(let c = fst (cache_enter blob_catalog
                  (cache_init BlobCache_transformers (SQLiteBackend memory_db) None 1 None));
        r = setitem c (PStr ''a'') (PBytes ''x'')
    in snd r = None \<and> opsPending c = 0 \<and> opsPending (fst r) = 1
       \<and> commits (backend (fst r)) = commits (backend c)
       \<and> committed_rows (backend (fst r)) TABLE_NAME = Some [])"
  by code_simp

section \<open>Opening a cache that has a stored dictionary\<close>

text \<open>
  C4. On the attach path a stored dictionary is used to build the compressor, and the open
  completes. In the code the test \<open>len(dict)\<close> is applied to the type \<open>dict\<close>, which
  raises: a cache whose dictionary was set, closed and opened again fails with a
  \<open>TypeError\<close>.
\<close>

theorem reopen_with_stored_dictionary_raises:
  "(let c0 = fst (cache_enter blob_catalog
                   (cache_init BlobCache_transformers (SQLiteBackend memory_db) (Some frame_factory) 1 None));
        r1 = applyCompressionDictionary c0 (PBytes ''D'');
        r2 = cache_exit (fst r1);
        r3 = cache_enter blob_catalog
               (cache_init BlobCache_transformers (backend (fst r2)) (Some frame_factory) 1 None)
    in snd r1 = None \<and> snd r2 = None \<and> snd r3 = Some TypeError)"
  by code_simp

section \<open>A failure while the values are re-encoded\<close>


section \<open>Compatibility checks of the attach path\<close>

text \<open>
  C7. When the stored \<open>serializers\<close> record, read as a list of codec ids, differs from the
  id tuple of the stack of the opening class, entering the cache fails with
  \<open>IncompatibleCodecs\<close> on the attach path. Nothing is assumed of the data table: the
  failure comes before the key type of the data table or any of its rows is read, and the
  cache is left as the attach path found it.
\<close>

theorem enter_fails_on_other_codec_stack:
  assumes "attach_state c = Some c4"
    and "b_getitem (backend c4) META_TABLE_NAME (PStr ''compression'') = Inr cid"
    and "cid = PStr i \<or> cid = PBytes i"
    and "b_getitem (backend c4) META_TABLE_NAME (PStr ''serializers'') = Inr (PBytes t)"
    and "json_loads cat t = Some j"
    and "tuple j = Inr ids"
    and "ids \<noteq> map PStr (tid (transformers c))"
  shows "cache_enter cat c = (c4, Some IncompatibleCodecs)"
proof -
  have "attach cat c4 = (c4, Some IncompatibleCodecs)"
    using assms attach_state_fields [OF assms(1)]
    by (auto simp: attach_def)
  then show ?thesis by (simp add: cache_enter_attach [OF assms(1)])
qed

theorem enter_fails_on_other_codec_stack_witness:
  "(let c = cache_init BlobCache_transformers string_cache_int_keys None 1 (Some PyInt)
    in attach_state c \<noteq> None
     \<and> b_getitem (backend (the (attach_state c))) META_TABLE_NAME (PStr ''serializers'')
         = Inr (PBytes (json_dumps blob_catalog [''utf8'']))
     \<and> tid (transformers c) = []
     \<and> snd (cache_enter blob_catalog c) = Some IncompatibleCodecs)"
proof -
  let ?c = "cache_init BlobCache_transformers string_cache_int_keys None 1 (Some PyInt)"
  let ?t = "json_dumps blob_catalog [''utf8'']"
  have a: "attach_state ?c \<noteq> None" by code_simp
  then have a': "attach_state ?c = Some (the (attach_state ?c))" by simp
  have h1: "b_getitem (backend (the (attach_state ?c))) META_TABLE_NAME (PStr ''compression'')
      = Inr (PBytes ''none'')"
    by code_simp
  have h2: "b_getitem (backend (the (attach_state ?c))) META_TABLE_NAME (PStr ''serializers'')
      = Inr (PBytes ?t)"
    by code_simp
  have h3: "json_loads blob_catalog ?t = Some (PList [PStr ''utf8''])" by code_simp
  have h4: "tuple (PList [PStr ''utf8'']) = Inr [PStr ''utf8'']" by simp
  have h5: "[PStr ''utf8''] \<noteq> map PStr (tid (transformers ?c))" by code_simp
  have h6: "tid (transformers ?c) = []" by code_simp
  from enter_fails_on_other_codec_stack [OF a' h1 _ h2 h3 h4 h5]
  have "cache_enter blob_catalog ?c = (the (attach_state ?c), Some IncompatibleCodecs)"
    by simp
  then have "snd (cache_enter blob_catalog ?c) = Some IncompatibleCodecs" by simp
  with a h2 h6 show ?thesis by (simp add: Let_def)
qed



text \<open>
  The exception is met: a \<open>BlobCache\<close> with the declared key type \<open>Any\<close> creates its data
  table with keys of type \<open>bytes\<close>, and opens again with the declared key type \<open>Any\<close>.
\<close>

lemma declared_Any_opens_on_stored_bytes:
  "(let c = fst (cache_enter blob_catalog
                  (cache_init BlobCache_transformers (SQLiteBackend memory_db) None 1 (Some PyAny)));
        b = backend (fst (cache_exit c));
        c' = cache_init BlobCache_transformers b None 1 (Some PyAny)
    in attach_state c' \<noteq> None
       \<and> getCacheTableKeyType (the (attach_state c')) = Inr (Some PyBytes)
       \<and> keyType c' = PyAny
       \<and> snd (cache_enter blob_catalog c') = None)"
  by code_simp

section \<open>Membership\<close>

text \<open>
  C9. \<open>contains\<close> is true exactly when \<open>getitem\<close> returns a value other than \<open>None\<close>
  (and raises what \<open>getitem\<close> raises); for a key whose stored raw value is empty, as for a
  key that is absent, \<open>getitem\<close> returns \<open>None\<close> and \<open>contains\<close> is false.
\<close>

theorem contains_iff_getitem_not_None:
  "(contains c key = Inr True \<longleftrightarrow> (\<exists>v. getitem c key = Inr v \<and> v \<noteq> PNone))
   \<and> (contains c key = Inr False \<longleftrightarrow> getitem c key = Inr PNone)
   \<and> (contains c key = Inl e \<longleftrightarrow> getitem c key = Inl e)
   \<and> (storedKey c key = Inr k \<and> b_getitem (backend c) TABLE_NAME k = Inr raw \<and> \<not> truthy raw
        \<longrightarrow> getitem c key = Inr PNone \<and> contains c key = Inr False)"
  by (cases "getitem c key") (auto simp: contains_def getitem_def)

theorem contains_iff_getitem_not_None_witness:
  "storedKey cache_with_empty_value (PStr ''a'') = Inr (PStr ''a'')
   \<and> b_getitem (backend cache_with_empty_value) TABLE_NAME (PStr ''a'') = Inr (PBytes [])
   \<and> \<not> truthy (PBytes [])
   \<and> getitem cache_with_empty_value (PStr ''a'') = Inr PNone
   \<and> contains cache_with_empty_value (PStr ''a'') = Inr False"
proof -
  have h: "storedKey cache_with_empty_value (PStr ''a'') = Inr (PStr ''a'')
      \<and> b_getitem (backend cache_with_empty_value) TABLE_NAME (PStr ''a'') = Inr (PBytes [])
      \<and> \<not> truthy (PBytes [])"
    by code_simp
  from contains_iff_getitem_not_None
         [of cache_with_empty_value "PStr ''a''" KeyError "PStr ''a''" "PBytes []"] h
  show ?thesis by blast
qed

section \<open>The range of the counter of pending operations\<close>

lemma in_range_withBackend: "in_range n c \<Longrightarrow> in_range n (fst (withBackend c r))"
  by (simp add: in_range_def)

lemma in_range_andThen:
  assumes "in_range n (fst r)" and "\<And>s. in_range n s \<Longrightarrow> in_range n (fst (f s))"
  shows "in_range n (fst (andThen r f))"
  using assms by (cases r) (auto simp: andThen_def split: option.splits)

lemma in_range_commit: "in_range n c \<Longrightarrow> in_range n (fst (commit c))"
  unfolding commit_def
  by (rule in_range_andThen) (auto simp: in_range_def)

lemma in_range_opCommit:
  assumes "1 \<le> n" "in_range n c"
  shows "in_range n (fst (opCommit c))"
proof (cases "willCommit c")
  case (Inl e)
  then show ?thesis using assms by (simp add: opCommit_def)
next
  case (Inr w)
  show ?thesis
  proof (cases w)
    case True
    then show ?thesis using Inr assms in_range_commit by (simp add: opCommit_def)
  next
    case False
    have "opsPending c \<noteq> n"
      using Inr False assms by (auto simp: willCommit_def in_range_def split: if_splits)
    then show ?thesis using Inr False assms by (simp add: opCommit_def in_range_def)
  qed
qed

lemma in_range_delitem: "1 \<le> n \<Longrightarrow> in_range n c \<Longrightarrow> in_range n (fst (delitem c k))"
  unfolding delitem_def
  by (auto split: sum.splits intro!: in_range_andThen in_range_withBackend in_range_opCommit)

lemma in_range_setitem: "1 \<le> n \<Longrightarrow> in_range n c \<Longrightarrow> in_range n (fst (setitem c k v))"
  unfolding setitem_def
  by (auto split: sum.splits intro!: in_range_andThen in_range_withBackend in_range_opCommit in_range_delitem)

lemma in_range_vacuum: "in_range n c \<Longrightarrow> in_range n (fst (vacuum c))"
  unfolding vacuum_def
  by (auto intro!: in_range_andThen in_range_withBackend in_range_commit)

lemma in_range_optimize: "in_range n c \<Longrightarrow> in_range n (fst (optimize c))"
  unfolding optimize_def
  by (auto intro!: in_range_andThen in_range_withBackend in_range_commit)

lemma in_range_createDataTable: "in_range n c \<Longrightarrow> in_range n (fst (createDataTable c))"
  unfolding createDataTable_def Let_def
  by (auto intro!: in_range_andThen in_range_withBackend in_range_optimize)

lemma in_range_empty: "in_range n c \<Longrightarrow> in_range n (fst (empty c))"
  unfolding empty_def
  by (auto intro!: in_range_andThen in_range_withBackend in_range_createDataTable in_range_commit)

lemma in_range_upd [simp]:
  "in_range n (c\<lparr>compressor := x\<rparr>) = in_range n c"
  "in_range n (c\<lparr>newCompressor := y\<rparr>) = in_range n c"
  "in_range n (c\<lparr>compressorFactory := z\<rparr>) = in_range n c"
  "in_range n (c\<lparr>backend := b\<rparr>) = in_range n c"
  by (simp_all add: in_range_def)

lemma in_range_apply: "in_range n c \<Longrightarrow> in_range n (fst (applyCompressionDictionary c d))"
  unfolding applyCompressionDictionary_def Let_def
  by (auto split: sum.splits option.splits intro!: in_range_andThen in_range_withBackend in_range_commit)

lemma in_range_optimizeCompression: "in_range n c \<Longrightarrow> in_range n (fst (optimizeCompression c t))"
  unfolding optimizeCompression_def
  by (auto split: sum.splits option.splits intro!: in_range_andThen in_range_apply in_range_commit)

lemma in_range_populate: "1 \<le> n \<Longrightarrow> in_range n c \<Longrightarrow> in_range n (fst (populate c xs))"
proof (induction xs arbitrary: c)
  case Nil
  then show ?case by simp
next
  case (Cons x xs)
  obtain k v where x: "x = (k, v)" by (cases x)
  show ?case unfolding x populate.simps
    by (rule in_range_andThen) (auto intro: in_range_setitem Cons)
qed

lemma in_range_step: "1 \<le> n \<Longrightarrow> in_range n c \<Longrightarrow> in_range n (fst (step c x))"
  by (cases x)
     (simp_all add: in_range_setitem in_range_delitem in_range_commit in_range_vacuum
        in_range_optimize in_range_empty in_range_populate in_range_apply in_range_optimizeCompression)

lemma in_range_run: "1 \<le> n \<Longrightarrow> in_range n c \<Longrightarrow> in_range n (run c xs)"
  by (induction xs arbitrary: c) (simp_all add: in_range_step)

lemma in_range_recreate [simp]: "in_range n (recreateCompressorWithArgs c d) = in_range n c"
  by (simp add: recreateCompressorWithArgs_def split: option.splits)

lemma in_range_initialize: "in_range n c \<Longrightarrow> in_range n (fst (initialize cat c))"
  unfolding initialize_def
  by (auto intro!: in_range_andThen in_range_withBackend in_range_createDataTable in_range_commit)

lemma in_range_attach: "in_range n c \<Longrightarrow> in_range n (fst (attach cat c))"
  unfolding attach_def Let_def
  by (auto split: sum.splits option.splits)

lemma in_range_open_tables: "in_range n c \<Longrightarrow> in_range n (fst (open_tables c))"
  unfolding open_tables_def
  by (auto intro!: in_range_andThen in_range_withBackend)

lemma in_range_isInitialized: "in_range n c \<Longrightarrow> isInitialized c = Inr (c', ex) \<Longrightarrow> in_range n c'"
  by (auto simp: isInitialized_def bindE_def split: sum.splits prod.splits)

lemma in_range_enter: "in_range n c \<Longrightarrow> in_range n (fst (cache_enter cat c))"
  unfolding cache_enter_def
  by (rule in_range_andThen)
     (auto split: sum.splits prod.splits
           intro!: in_range_andThen in_range_withBackend in_range_open_tables
           intro: in_range_initialize in_range_attach dest: in_range_isInitialized)

lemma in_range_init: "0 \<le> n \<Longrightarrow> in_range n (cache_init trs base f n kt)"
  by (simp add: in_range_def cache_init_def)

lemma commit_resets: "snd (commit c) = None \<Longrightarrow> opsPending (fst (commit c)) = 0"
  by (cases "b_commit (backend c)") (auto simp: commit_def withBackend_def andThen_def split: option.splits)

lemma vacuum_resets: "snd (vacuum c) = None \<Longrightarrow> opsPending (fst (vacuum c)) = 0"
  using commit_resets [of c]
  by (cases "commit c") (auto simp: vacuum_def andThen_def split: option.splits if_splits)

lemma optimize_resets: "snd (optimize c) = None \<Longrightarrow> opsPending (fst (optimize c)) = 0"
  using commit_resets [of c]
  by (cases "commit c") (auto simp: optimize_def andThen_def split: option.splits if_splits)

lemma andThen_None: "snd (andThen r f) = None \<Longrightarrow> snd r = None \<and> andThen r f = f (fst r)"
  by (cases r) (auto simp: andThen_def split: option.splits)

lemma empty_resets: "snd (empty c) = None \<Longrightarrow> opsPending (fst (empty c)) = 0"
  unfolding empty_def
  by (metis andThen_None commit_resets)

text \<open>
  C10. From a cache just opened with \<open>commitOnNOps = n\<close>, \<open>n\<close> at least 1, after every
  sequence of operations (also ones that raised) the counter of pending operations is between
  0 and \<open>n\<close>; and every commit that succeeds leaves it at 0: \<open>commit\<close> itself, the commit
  inside a mutating operation, and \<open>vacuum\<close>, \<open>optimize\<close> and \<open>empty\<close>.
\<close>

theorem opsPending_stays_in_range:
  assumes "1 \<le> n"
    and "c = run (fst (cache_enter cat (cache_init trs base factory n kt))) ops"
  shows "0 \<le> opsPending c \<and> opsPending c \<le> n
     \<and> (snd (commit c) = None \<longrightarrow> opsPending (fst (commit c)) = 0)
     \<and> (willCommit c = Inr True \<and> snd (opCommit c) = None \<longrightarrow> opsPending (fst (opCommit c)) = 0)
     \<and> (snd (vacuum c) = None \<longrightarrow> opsPending (fst (vacuum c)) = 0)
     \<and> (snd (optimize c) = None \<longrightarrow> opsPending (fst (optimize c)) = 0)
     \<and> (snd (empty c) = None \<longrightarrow> opsPending (fst (empty c)) = 0)"
proof -
  have "in_range n (cache_init trs base factory n kt)"
    using assms(1) by (simp add: in_range_init)
  then have "in_range n c"
    unfolding assms(2) using assms(1) by (intro in_range_run in_range_enter)
  then have r: "0 \<le> opsPending c \<and> opsPending c \<le> n" by (simp add: in_range_def)
  have a: "willCommit c = Inr True \<and> snd (opCommit c) = None \<longrightarrow> opsPending (fst (opCommit c)) = 0"
    using commit_resets [of c] by (auto simp: opCommit_def)
  show ?thesis
    using r a commit_resets [of c] vacuum_resets [of c] optimize_resets [of c] empty_resets [of c]
    by blast
qed

theorem opsPending_stays_in_range_witness:
  "(let c = run (fst (cache_enter blob_catalog
                       (cache_init BlobCache_transformers (SQLiteBackend memory_db) None 1 None)))
                [Put (PStr ''a'') (PBytes ''x'')]
    in (1::int) \<le> 1 \<and> opsPending c = 1 \<and> snd (commit c) = None \<and> willCommit c = Inr True
       \<and> snd (opCommit c) = None \<and> snd (vacuum c) = None \<and> snd (optimize c) = None
       \<and> snd (empty c) = None
       \<and> opsPending (fst (commit c)) = 0 \<and> opsPending (fst (opCommit c)) = 0
       \<and> opsPending (fst (vacuum c)) = 0 \<and> opsPending (fst (optimize c)) = 0
       \<and> opsPending (fst (empty c)) = 0)"
proof -
  let ?c = "run (fst (cache_enter blob_catalog
                       (cache_init BlobCache_transformers (SQLiteBackend memory_db) None 1 None)))
                [Put (PStr ''a'') (PBytes ''x'')]"
  have h: "opsPending ?c = 1 \<and> snd (commit ?c) = None \<and> willCommit ?c = Inr True
       \<and> snd (opCommit ?c) = None \<and> snd (vacuum ?c) = None \<and> snd (optimize ?c) = None
       \<and> snd (empty ?c) = None"
    by code_simp
  have n: "(1::int) \<le> 1" by simp
  from opsPending_stays_in_range [OF n refl, of blob_catalog BlobCache_transformers "SQLiteBackend memory_db" None None
              "[Put (PStr ''a'') (PBytes ''x'')]"] h
  show ?thesis by (simp add: Let_def)
qed

section \<open>Writes, commits and the committed content\<close>

lemma lookup_append: "lookup (xs @ ys) k = (case lookup xs k of None \<Rightarrow> lookup ys k | Some v \<Rightarrow> Some v)"
  by (induction xs) auto

lemma lookup_replace_row [simp]: "lookup (replace_row xs k v) k = Some v"
  by (simp add: replace_row_def lookup_append)


















section \<open>Put, then get\<close>

lemma names_distinct [simp]:
  "TABLE_NAME \<noteq> META_TABLE_NAME" "META_TABLE_NAME \<noteq> TABLE_NAME"
  "TABLE_NAME \<noteq> keyTypesDataBaseName" "keyTypesDataBaseName \<noteq> TABLE_NAME"
  by (simp_all add: TABLE_NAME_def META_TABLE_NAME_def keyTypesDataBaseName_def)




lemma keeps_upd [simp]:
  "keeps xs (b\<lparr>l_keyMappers := km\<rparr>) = keeps xs b"
  "keeps xs (b\<lparr>currentWriteTx := w\<rparr>) = keeps xs b"
  "keeps xs (b\<lparr>l_functions := fs\<rparr>) = keeps xs b"
  "keeps xs (b\<lparr>l_commits := n\<rparr>) = keeps xs b"
  by (simp_all add: keeps_def)










lemma holds_lmdb [simp]: "holds xs (LMDBBackend b) = keeps xs b"
  by (simp add: holds_def keeps_def)
















lemma holds_recreate [simp]: "backend (recreateCompressorWithArgs c d) = backend c"
  by (simp add: recreateCompressorWithArgs_def split: option.splits)








lemma same_class_upd [simp]:
  "same_class c (c'\<lparr>backend := b\<rparr>) = same_class c c'"
  "same_class c (c'\<lparr>opsPending := n\<rparr>) = same_class c c'"
  "same_class c (c'\<lparr>compressor := k\<rparr>) = same_class c c'"
  "same_class c (c'\<lparr>compressorFactory := f\<rparr>) = same_class c c'"
  by (simp_all add: same_class_def)

lemma same_class_withBackend [simp]: "same_class c (fst (withBackend c' r)) = same_class c c'"
  by (simp add: same_class_def)




lemma same_class_recreate [simp]: "same_class c (recreateCompressorWithArgs c' d) = same_class c c'"
  by (simp add: recreateCompressorWithArgs_def split: option.splits)








end
